theory Spec2Isabelle
  imports Main
begin

section \<open>Python values the service handles\<close>

text \<open>
  The service is a FastAPI module, \<^verbatim>\<open>app.py\<close>. Python strings are modelled as
  \<^typ>\<open>string\<close>. The builtin \<^verbatim>\<open>str.upper\<close> is not code of the service: every
  definition that calls it takes it as the parameter \<open>upper\<close>, so that the theorems hold
  for whatever the builtin computes (Unicode case mapping included).
\<close>

subsection \<open>Exceptions\<close>

text \<open>
  The exceptions a request meets. \<open>HTTPException status_code detail\<close> is FastAPI's
  exception, a subclass of \<^verbatim>\<open>Exception\<close>. External code raises the other two:
  \<open>OtherException\<close> is any other instance of \<^verbatim>\<open>Exception\<close>, \<open>NonException\<close> an instance
  of \<^verbatim>\<open>BaseException\<close> outside \<^verbatim>\<open>Exception\<close> (\<^verbatim>\<open>SystemExit\<close>, \<^verbatim>\<open>KeyboardInterrupt\<close>,
  \<^verbatim>\<open>GeneratorExit\<close>); the string is the text \<^verbatim>\<open>str()\<close> gives for the raised object.
\<close>

datatype py_exception =
    HTTPException nat string
  | OtherException string
  | NonException string

text \<open>\<^verbatim>\<open>isinstance(e, Exception)\<close>: what an \<^verbatim>\<open>except Exception\<close> clause catches.\<close>

fun isinstance_Exception :: "py_exception \<Rightarrow> bool" where
  "isinstance_Exception (HTTPException _ _) = True"
| "isinstance_Exception (OtherException _) = True"
| "isinstance_Exception (NonException _) = False"

text \<open>
  The exceptions of module start-up: \<^verbatim>\<open>FileNotFoundError\<close> from \<^verbatim>\<open>open\<close>, the
  \<^verbatim>\<open>RuntimeError\<close> the module raises itself, \<^verbatim>\<open>KeyError\<close> from a dict lookup,
  \<^verbatim>\<open>AttributeError\<close> from calling \<^verbatim>\<open>upper\<close> on a value that has no such method, and any
  other exception of \<^verbatim>\<open>open\<close> or \<^verbatim>\<open>json.load\<close> (a permission error, a JSON syntax error).
\<close>

datatype startup_exception =
    FileNotFoundError
  | RuntimeError string
  | KeyError string
  | AttributeError
  | OtherStartupException string

subsection \<open>Environment\<close>

text \<open>\<^verbatim>\<open>os.environ\<close> after \<^verbatim>\<open>load_dotenv()\<close>, and \<^verbatim>\<open>os.getenv\<close> with its default \<^verbatim>\<open>None\<close>.\<close>

type_synonym environ = "string \<rightharpoonup> string"

definition getenv :: "environ \<Rightarrow> string \<Rightarrow> string option" where
  "getenv env key = env key"

text \<open>Truth value of an optional string: \<^verbatim>\<open>None\<close> and the empty string are false.\<close>

fun truthy :: "string option \<Rightarrow> bool" where
  "truthy None = False"
| "truthy (Some s) = (s \<noteq> [])"

text \<open>
  \<^verbatim>\<open>bool(os.getenv("OPENAI_API_KEY"))\<close>, the service's test for a configured credential
  (the local \<^verbatim>\<open>openai_key_configured\<close> of \<^verbatim>\<open>health_check\<close>; \<^verbatim>\<open>process_tokens\<close> tests its
  negation).
\<close>

definition openai_key_configured :: "environ \<Rightarrow> bool" where
  "openai_key_configured env = truthy (getenv env ''OPENAI_API_KEY'')"

section \<open>POST /validate-tokens\<close>

record validation_entry =
  valid :: bool
  normalized :: "string option"

record validation_summary =
  total_tokens :: nat
  valid_count :: nat
  invalid_count :: nat
  valid_tokens :: "string list"
  invalid_tokens :: "string list"

record validate_tokens_response =
  validation_results :: "string \<rightharpoonup> validation_entry"
  summary :: validation_summary

text \<open>
  The \<^verbatim>\<open>for token in tokens\<close> loop of \<^verbatim>\<open>validate_tokens\<close>, with its three mutable
  locals as accumulators: the dict \<^verbatim>\<open>validation_results\<close> and the lists
  \<^verbatim>\<open>valid_tokens\<close> and \<^verbatim>\<open>invalid_tokens\<close> (\<^verbatim>\<open>append\<close> adds at the end).
\<close>

fun validate_loop ::
  "(string \<Rightarrow> string) \<Rightarrow> string list \<Rightarrow> string list \<Rightarrow>
   (string \<rightharpoonup> validation_entry) \<Rightarrow> string list \<Rightarrow> string list \<Rightarrow>
   (string \<rightharpoonup> validation_entry) \<times> string list \<times> string list" where
  "validate_loop upper asl_dataset [] results vs ivs = (results, vs, ivs)"
| "validate_loop upper asl_dataset (token # tokens) results vs ivs =
     (let token_upper = upper token in
      if token_upper \<in> set asl_dataset
      then validate_loop upper asl_dataset tokens
             (results(token \<mapsto> \<lparr>valid = True, normalized = Some token_upper\<rparr>))
             (vs @ [token_upper]) ivs
      else validate_loop upper asl_dataset tokens
             (results(token \<mapsto> \<lparr>valid = False, normalized = None\<rparr>))
             vs (ivs @ [token]))"

definition validate_tokens ::
  "(string \<Rightarrow> string) \<Rightarrow> string list \<Rightarrow> string list \<Rightarrow> validate_tokens_response" where
  "validate_tokens upper asl_dataset tokens =
     (case validate_loop upper asl_dataset tokens Map.empty [] [] of
        (results, vs, ivs) \<Rightarrow>
          \<lparr>validation_results = results,
           summary = \<lparr>total_tokens = length tokens,
                      valid_count = length vs,
                      invalid_count = length ivs,
                      valid_tokens = vs,
                      invalid_tokens = ivs\<rparr>\<rparr>)"

section \<open>Loading the vocabulary at startup\<close>

text \<open>
  A value of the parsed JSON object: a string, or any other JSON value (number, boolean,
  null, array, object), none of which has an \<^verbatim>\<open>upper\<close> method.
\<close>

datatype json = JString string | JOther

text \<open>
  The dict \<^verbatim>\<open>asl_dataset_raw\<close> that \<^verbatim>\<open>json.load\<close> returns for a JSON object: its items
  in insertion order. A Python dict holds each key once, so a well-formed \<open>raw_dict\<close>
  has distinct keys.
\<close>

type_synonym raw_dict = "(string \<times> json) list"

definition keys :: "raw_dict \<Rightarrow> string list" where
  "keys raw = map fst raw"

text \<open>\<^verbatim>\<open>asl_dataset_raw[word]\<close>: the value of the key, \<^verbatim>\<open>KeyError\<close> when absent.\<close>

definition getitem :: "raw_dict \<Rightarrow> string \<Rightarrow> startup_exception + json" where
  "getitem raw word = (case map_of raw word of None \<Rightarrow> Inl (KeyError word) | Some v \<Rightarrow> Inr v)"

text \<open>\<^verbatim>\<open>value.upper()\<close>: defined on strings only.\<close>

fun call_upper :: "(string \<Rightarrow> string) \<Rightarrow> json \<Rightarrow> startup_exception + string" where
  "call_upper upper (JString s) = Inr (upper s)"
| "call_upper upper JOther = Inl AttributeError"

text \<open>
  The comprehension \<^verbatim>\<open>[asl_dataset_raw[word].upper() for word in asl_dataset_raw]\<close>,
  over the keys still to visit; the first exception ends it.
\<close>

fun comprehension ::
  "(string \<Rightarrow> string) \<Rightarrow> raw_dict \<Rightarrow> string list \<Rightarrow> startup_exception + string list" where
  "comprehension upper raw [] = Inr []"
| "comprehension upper raw (word # ws) =
     (case getitem raw word of
        Inl e \<Rightarrow> Inl e
      | Inr v \<Rightarrow>
          (case call_upper upper v of
             Inl e \<Rightarrow> Inl e
           | Inr u \<Rightarrow>
               (case comprehension upper raw ws of
                  Inl e \<Rightarrow> Inl e
                | Inr us \<Rightarrow> Inr (u # us))))"

text \<open>
  The \<^verbatim>\<open>try\<close> block at module level. \<open>file\<close> is what \<^verbatim>\<open>open\<close> and \<^verbatim>\<open>json.load\<close>
  produce: the exception one of them raises, or the parsed object. \<open>Inl\<close> of the result
  is the exception that leaves the module, so that the import fails and no application
  starts; \<open>Inr\<close> is the global \<^verbatim>\<open>asl_dataset\<close>.
\<close>

definition load_asl_dataset ::
  "(string \<Rightarrow> string) \<Rightarrow> startup_exception + raw_dict \<Rightarrow> startup_exception + string list" where
  "load_asl_dataset upper file =
     (case (case file of
              Inl e \<Rightarrow> Inl e
            | Inr asl_dataset_raw \<Rightarrow> comprehension upper asl_dataset_raw (keys asl_dataset_raw)) of
        Inl FileNotFoundError \<Rightarrow>
          Inl (RuntimeError ''ASL dataset file not found at ./data/english_words.json'')
      | Inl e \<Rightarrow> Inl e
      | Inr asl_dataset \<Rightarrow> Inr asl_dataset)"

section \<open>GET /health\<close>

record HealthResponse =
  status :: string
  message :: string
  asl_dataset_size :: nat

definition health_check :: "environ \<Rightarrow> string list \<Rightarrow> HealthResponse" where
  "health_check env asl_dataset =
     \<lparr>status = (if openai_key_configured env then ''healthy'' else ''warning''),
      message = (if openai_key_configured env then ''Service is running''
                 else ''Service running but OPENAI_API_KEY not configured''),
      asl_dataset_size = length asl_dataset\<rparr>"

section \<open>GET /asl-dataset\<close>

record asl_dataset_info =
  total_words :: nat
  sample_words :: "string list"
  description :: string

definition get_asl_dataset :: "string list \<Rightarrow> asl_dataset_info" where
  "get_asl_dataset asl_dataset =
     \<lparr>total_words = length asl_dataset,
      sample_words = take 20 asl_dataset,
      description = ''Available ASL vocabulary tokens''\<rparr>"

section \<open>POST /process-tokens\<close>

record ProcessTokensRequest =
  words :: "string list"

record ProcessTokensResponse =
  result :: string

text \<open>
  The external pipeline, lines
  \<^verbatim>\<open>str(get_crew_instance().sgin_gpt_crew().kickoff(inputs={'words': .., 'ASL_dataset': ..}))\<close>:
  a call takes the state \<open>'w\<close> of the world outside the service (the language-model
  API, the crew's own state) with the two inputs, and yields the exception it raises or
  the final text, with the world after the call. Threading the world through the
  endpoint makes the number of calls observable.
\<close>

type_synonym 'w crew =
  "'w \<Rightarrow> string list \<Rightarrow> string list \<Rightarrow> (py_exception + string) \<times> 'w"

text \<open>The body of the \<^verbatim>\<open>try\<close> block of \<^verbatim>\<open>process_tokens\<close>.\<close>

definition process_tokens_try ::
  "'w crew \<Rightarrow> environ \<Rightarrow> string list \<Rightarrow> ProcessTokensRequest \<Rightarrow> 'w \<Rightarrow>
   (py_exception + ProcessTokensResponse) \<times> 'w" where
  "process_tokens_try kickoff env asl_dataset request w =
     (if \<not> openai_key_configured env
      then (Inl (HTTPException 500
        ''OPENAI_API_KEY not configured. Please set it in your environment or .env file.''), w)
      else if words request = []
      then (Inl (HTTPException 400 ''Words list cannot be empty''), w)
      else (case kickoff w (words request) asl_dataset of
              (Inl e, w') \<Rightarrow> (Inl e, w')
            | (Inr r, w') \<Rightarrow> (Inr \<lparr>result = r\<rparr>, w')))"

text \<open>
  The endpoint: the \<^verbatim>\<open>try\<close> block under its handler \<^verbatim>\<open>except Exception as e\<close>, which
  raises \<^verbatim>\<open>HTTPException(500, f"Error processing tokens: {str(e)}")\<close>. \<open>str\<close> is Python's
  \<^verbatim>\<open>str()\<close> on exception objects, a parameter like \<open>upper\<close>. \<open>Inl\<close> of the result is the
  exception that leaves the endpoint; FastAPI answers an \<open>HTTPException\<close> with its status
  code and detail.
\<close>

definition process_tokens ::
  "(py_exception \<Rightarrow> string) \<Rightarrow> 'w crew \<Rightarrow> environ \<Rightarrow> string list \<Rightarrow>
   ProcessTokensRequest \<Rightarrow> 'w \<Rightarrow> (py_exception + ProcessTokensResponse) \<times> 'w" where
  "process_tokens str kickoff env asl_dataset request w =
     (case process_tokens_try kickoff env asl_dataset request w of
        (Inl e, w') \<Rightarrow>
          (if isinstance_Exception e
           then (Inl (HTTPException 500 (''Error processing tokens: '' @ str e)), w')
           else (Inl e, w'))
      | (Inr response, w') \<Rightarrow> (Inr response, w'))"

section \<open>Concrete inputs\<close>

text \<open>\<^verbatim>\<open>str.upper\<close> on ASCII text, for evaluating the definitions on examples.\<close>

definition ascii_upper_char :: "char \<Rightarrow> char" where
  "ascii_upper_char c =
     (let n = (of_char c :: nat) in if 97 \<le> n \<and> n \<le> 122 then char_of (n - 32) else c)"

definition ascii_upper :: "string \<Rightarrow> string" where
  "ascii_upper s = map ascii_upper_char s"

text \<open>
  A pipeline that fails on its first call and would succeed on the next; the world is
  the number of calls made so far.
\<close>

definition flaky_crew :: "py_exception \<Rightarrow> nat crew" where
  "flaky_crew e n ws ds = (if n = 0 then (Inl e, Suc n) else (Inr ''Hello.'', Suc n))"

text \<open>
  \<^verbatim>\<open>str()\<close> on the exceptions of a request, for the examples: Starlette's
  \<^verbatim>\<open>HTTPException.__str__\<close> returns \<^verbatim>\<open>f"{self.status_code}: {self.detail}"\<close>, and the
  external exceptions carry their text.
\<close>

fun decimal :: "nat \<Rightarrow> string" where
  "decimal n =
     (if n < 10 then [char_of (48 + n)]
      else decimal (n div 10) @ [char_of (48 + n mod 10)])"

declare decimal.simps [simp del]

fun exception_str :: "py_exception \<Rightarrow> string" where
  "exception_str (HTTPException status_code detail) = decimal status_code @ '': '' @ detail"
| "exception_str (OtherException msg) = msg"
| "exception_str (NonException msg) = msg"

section \<open>Properties of POST /validate-tokens\<close>

lemma validate_loop_lists:
  "snd (validate_loop upper ds tokens results vs ivs) =
     (vs @ map upper (filter (\<lambda>t. upper t \<in> set ds) tokens),
      ivs @ filter (\<lambda>t. upper t \<notin> set ds) tokens)"
  by (induction tokens arbitrary: results vs ivs) (simp_all add: Let_def)

lemma validate_tokens_lists:
  "valid_tokens (summary (validate_tokens upper ds tokens)) =
     map upper (filter (\<lambda>t. upper t \<in> set ds) tokens) \<and>
   invalid_tokens (summary (validate_tokens upper ds tokens)) =
     filter (\<lambda>t. upper t \<notin> set ds) tokens"
  using validate_loop_lists [of upper ds tokens Map.empty "[]" "[]"]
  by (cases "validate_loop upper ds tokens Map.empty [] []") (simp add: validate_tokens_def)

lemma validate_tokens_counts:
  "valid_count (summary (validate_tokens upper ds tokens)) =
     length (valid_tokens (summary (validate_tokens upper ds tokens))) \<and>
   invalid_count (summary (validate_tokens upper ds tokens)) =
     length (invalid_tokens (summary (validate_tokens upper ds tokens))) \<and>
   total_tokens (summary (validate_tokens upper ds tokens)) = length tokens"
  by (simp add: validate_tokens_def split: prod.splits)

text \<open>
  Claim C2. For every input list of tokens, the summary of POST /validate-tokens
  partitions the input: \<open>valid_count\<close> plus \<open>invalid_count\<close> equals \<open>total_tokens\<close>, and
  \<open>total_tokens\<close> equals the length of the input list.
\<close>

theorem validate_tokens_partition:
  "valid_count (summary (validate_tokens upper ds tokens)) +
   invalid_count (summary (validate_tokens upper ds tokens)) =
     total_tokens (summary (validate_tokens upper ds tokens)) \<and>
   total_tokens (summary (validate_tokens upper ds tokens)) = length tokens"
proof -
  have "length (filter (\<lambda>t. upper t \<in> set ds) tokens) +
        length (filter (\<lambda>t. upper t \<notin> set ds) tokens) = length tokens"
    by (rule sum_length_filter_compl)
  then show ?thesis
    using validate_tokens_lists [of upper ds tokens]
      validate_tokens_counts [of upper ds tokens]
    by simp
qed

lemma validate_loop_results:
  "fst (validate_loop upper ds tokens results vs ivs) =
     (\<lambda>t. if t \<in> set tokens
          then Some \<lparr>valid = (upper t \<in> set ds),
                     normalized = (if upper t \<in> set ds then Some (upper t) else None)\<rparr>
          else results t)"
  by (induction tokens arbitrary: results vs ivs) (auto simp: Let_def fun_eq_iff)

lemma validation_results_eq:
  "validation_results (validate_tokens upper ds tokens) =
     (\<lambda>t. if t \<in> set tokens
          then Some \<lparr>valid = (upper t \<in> set ds),
                     normalized = (if upper t \<in> set ds then Some (upper t) else None)\<rparr>
          else None)"
  using validate_loop_results [of upper ds tokens Map.empty "[]" "[]"]
  by (cases "validate_loop upper ds tokens Map.empty [] []") (simp add: validate_tokens_def)

lemma ascii_upper_you: "ascii_upper ''you'' = ''YOU''"
  by code_simp

lemma ascii_upper_Xyz: "ascii_upper ''Xyz'' = ''XYZ''"
  by code_simp

lemma ascii_upper_Hello: "ascii_upper ''Hello'' = ''HELLO''"
  by code_simp

text \<open>
  Claim C3. Every input token of POST /validate-tokens is uppercased before the lookup:
  its entry in \<open>validation_results\<close> is valid exactly when its uppercased form is in the
  loaded dataset; then \<open>normalized\<close> is the uppercased token, and otherwise it is null.
\<close>

theorem validate_tokens_results:
  assumes "token \<in> set tokens"
  shows "validation_results (validate_tokens upper ds tokens) token =
           Some \<lparr>valid = (upper token \<in> set ds),
                 normalized = (if upper token \<in> set ds then Some (upper token) else None)\<rparr>"
  using assms by (simp add: validation_results_eq)

theorem validate_tokens_results_witness:
  "''you'' \<in> set [''you'', ''Xyz''] \<and>
   validation_results (validate_tokens ascii_upper [''HELLO'', ''YOU''] [''you'', ''Xyz'']) ''you'' =
     Some \<lparr>valid = True, normalized = Some ''YOU''\<rparr> \<and>
   ''Xyz'' \<in> set [''you'', ''Xyz''] \<and>
   validation_results (validate_tokens ascii_upper [''HELLO'', ''YOU''] [''you'', ''Xyz'']) ''Xyz'' =
     Some \<lparr>valid = False, normalized = None\<rparr>"
proof -
  have you: "''you'' \<in> set [''you'', ''Xyz'']" and xyz: "''Xyz'' \<in> set [''you'', ''Xyz'']"
    by simp_all
  show ?thesis
    using validate_tokens_results [OF you, of ascii_upper "[''HELLO'', ''YOU'']"]
      validate_tokens_results [OF xyz, of ascii_upper "[''HELLO'', ''YOU'']"]
    by (simp add: ascii_upper_you ascii_upper_Xyz)
qed

text \<open>
  Claim C10. In the summary of POST /validate-tokens, every element of \<open>valid_tokens\<close> is
  the uppercased form of an input token and a member of the loaded dataset, and every
  element of \<open>invalid_tokens\<close> is an input token as it was given.
\<close>

theorem validate_tokens_summary_lists:
  "(\<forall>v \<in> set (valid_tokens (summary (validate_tokens upper ds tokens))).
      v \<in> set ds \<and> (\<exists>t \<in> set tokens. v = upper t)) \<and>
   (\<forall>t \<in> set (invalid_tokens (summary (validate_tokens upper ds tokens))). t \<in> set tokens)"
  by (auto simp: validate_tokens_lists)

theorem validate_tokens_summary_lists_witness:
  "valid_tokens (summary (validate_tokens ascii_upper [''HELLO'', ''YOU''] [''you'', ''Xyz''])) = [''YOU''] \<and>
   ''YOU'' \<in> set [''HELLO'', ''YOU''] \<and> ''YOU'' = ascii_upper ''you'' \<and>
   invalid_tokens (summary (validate_tokens ascii_upper [''HELLO'', ''YOU''] [''you'', ''Xyz''])) = [''Xyz''] \<and>
   ''Xyz'' \<in> set [''you'', ''Xyz'']"
  using validate_tokens_summary_lists [of ascii_upper "[''HELLO'', ''YOU'']" "[''you'', ''Xyz'']"]
  by (simp add: validate_tokens_lists ascii_upper_you ascii_upper_Xyz)

section \<open>Properties of the dataset endpoints\<close>

text \<open>
  Claim C8. GET /asl-dataset returns \<open>total_words\<close> equal to the length of the loaded
  dataset and \<open>sample_words\<close> equal to its first 20 elements, which are all of them when
  the dataset has fewer than 20.
\<close>

theorem get_asl_dataset_sample:
  "total_words (get_asl_dataset ds) = length ds \<and>
   sample_words (get_asl_dataset ds) = take 20 ds \<and>
   (length ds < 20 \<longrightarrow> sample_words (get_asl_dataset ds) = ds)"
  by (simp add: get_asl_dataset_def)

theorem get_asl_dataset_sample_witness:
  "length [''HELLO'', ''YOU''] < 20 \<and>
   total_words (get_asl_dataset [''HELLO'', ''YOU'']) = 2 \<and>
   sample_words (get_asl_dataset [''HELLO'', ''YOU'']) = [''HELLO'', ''YOU'']"
  using get_asl_dataset_sample [of "[''HELLO'', ''YOU'']"] by simp

text \<open>
  Claim C9. GET /health returns status "warning" exactly when no API credential is
  configured and "healthy" otherwise, and in both cases \<open>asl_dataset_size\<close> is the length
  of the loaded dataset.
\<close>

theorem health_check_status:
  "(status (health_check env ds) = ''warning'') = (\<not> openai_key_configured env) \<and>
   (status (health_check env ds) = ''healthy'') = openai_key_configured env \<and>
   asl_dataset_size (health_check env ds) = length ds"
  by (simp add: health_check_def)

theorem health_check_status_witness:
  "status (health_check Map.empty [''HELLO'', ''YOU'']) = ''warning'' \<and>
   status (health_check [''OPENAI_API_KEY'' \<mapsto> []] [''HELLO'', ''YOU'']) = ''warning'' \<and>
   status (health_check [''OPENAI_API_KEY'' \<mapsto> ''sk-test''] [''HELLO'', ''YOU'']) = ''healthy'' \<and>
   asl_dataset_size (health_check Map.empty [''HELLO'', ''YOU'']) = 2"
  using health_check_status [of Map.empty "[''HELLO'', ''YOU'']"]
    health_check_status [of "[''OPENAI_API_KEY'' \<mapsto> []]" "[''HELLO'', ''YOU'']"]
    health_check_status [of "[''OPENAI_API_KEY'' \<mapsto> ''sk-test'']" "[''HELLO'', ''YOU'']"]
  by (simp add: openai_key_configured_def getenv_def)

section \<open>Properties of the vocabulary loader\<close>

lemma comprehension_strings:
  "list_all2 (\<lambda>word s. map_of raw word = Some (JString s)) ws vals \<Longrightarrow>
   comprehension upper raw ws = Inr (map upper vals)"
  by (induction ws vals rule: list_all2_induct) (simp_all add: getitem_def)

lemma keys_values_strings:
  assumes "distinct (keys raw)" and "map snd raw = map JString vals"
  shows "list_all2 (\<lambda>word s. map_of raw word = Some (JString s)) (keys raw) vals"
proof -
  have len: "length raw = length vals"
    using assms(2) by (metis length_map)
  have "map_of raw (fst (raw ! i)) = Some (JString (vals ! i))" if "i < length raw" for i
  proof -
    have "snd (raw ! i) = map JString vals ! i"
      using that assms(2) by (metis nth_map)
    then have "snd (raw ! i) = JString (vals ! i)"
      using that len by simp
    moreover have "(fst (raw ! i), snd (raw ! i)) \<in> set raw"
      using that by simp
    ultimately show ?thesis
      using assms(1) by (simp add: keys_def)
  qed
  then show ?thesis
    using len by (simp add: list_all2_conv_all_nth keys_def)
qed

lemma load_asl_dataset_parsed:
  "comprehension upper raw (keys raw) = Inr ds \<Longrightarrow> load_asl_dataset upper (Inr raw) = Inr ds"
  by (simp add: load_asl_dataset_def)

lemma call_upper_Inr:
  "call_upper upper v = Inr u \<longleftrightarrow> (\<exists>s. v = JString s \<and> u = upper s)"
  by (cases v) auto

lemma comprehension_Inr_strings:
  "comprehension upper raw ws = Inr ds \<Longrightarrow>
   \<exists>vals. list_all2 (\<lambda>word s. map_of raw word = Some (JString s)) ws vals \<and> ds = map upper vals"
proof (induction ws arbitrary: ds)
  case Nil
  then show ?case by simp
next
  case (Cons word ws)
  from Cons.prems obtain s us where v: "map_of raw word = Some (JString s)"
    and rest: "comprehension upper raw ws = Inr us" and ds: "ds = upper s # us"
    by (auto simp: getitem_def call_upper_Inr split: option.splits sum.splits)
  from Cons.IH [OF rest] obtain vals
    where "list_all2 (\<lambda>word s. map_of raw word = Some (JString s)) ws vals" and "us = map upper vals"
    by blast
  with v ds have "list_all2 (\<lambda>word s. map_of raw word = Some (JString s)) (word # ws) (s # vals) \<and>
      ds = map upper (s # vals)"
    by simp
  then show ?case by blast
qed

lemma load_asl_dataset_only_strings:
  assumes "load_asl_dataset upper (Inr raw) = Inr ds"
  shows "\<exists>vals. list_all2 (\<lambda>word s. map_of raw word = Some (JString s)) (keys raw) vals \<and>
           ds = map upper vals"
proof -
  from assms have "comprehension upper raw (keys raw) = Inr ds"
    by (simp add: load_asl_dataset_def split: sum.splits startup_exception.splits)
  then show ?thesis by (rule comprehension_Inr_strings)
qed

lemma load_asl_dataset_non_string:
  "load_asl_dataset ascii_upper (Inr [(''hello'', JString ''Hello''), (''you'', JOther)]) =
     Inl AttributeError"
  by (simp add: load_asl_dataset_def keys_def getitem_def)


text \<open>
  Claim C4. The loader builds the dataset as a flat list holding, for every key of the
  raw JSON object, the uppercased form of that key's value: for a dict (distinct keys)
  whose values are the strings \<open>vals\<close>, the load succeeds with the list of their
  uppercased forms, in the order of the keys. Hence every element of the loaded dataset
  is the uppercased value of a key of the raw mapping, and the dataset is as long as
  the raw object has keys.
\<close>

theorem load_asl_dataset_flat_list:
  assumes "distinct (keys raw)" and "map snd raw = map JString vals"
  shows "\<exists>asl_dataset.
           load_asl_dataset upper (Inr raw) = Inr asl_dataset \<and>
           asl_dataset = map upper vals \<and>
           list_all2 (\<lambda>word u. \<exists>s. getitem raw word = Inr (JString s) \<and> u = upper s)
             (keys raw) asl_dataset \<and>
           (\<forall>u \<in> set asl_dataset. \<exists>word s. getitem raw word = Inr (JString s) \<and> u = upper s) \<and>
           length asl_dataset = length (keys raw) \<and>
           length asl_dataset = card (dom (map_of raw))"
proof -
  let ?ds = "map upper vals"
  have rel: "list_all2 (\<lambda>word s. map_of raw word = Some (JString s)) (keys raw) vals"
    using assms by (rule keys_values_strings)
  have "comprehension upper raw (keys raw) = Inr ?ds"
    using rel by (rule comprehension_strings)
  then have load: "load_asl_dataset upper (Inr raw) = Inr ?ds"
    by (rule load_asl_dataset_parsed)
  have pointwise: "list_all2 (\<lambda>word u. \<exists>s. getitem raw word = Inr (JString s) \<and> u = upper s)
      (keys raw) ?ds"
    using rel by (simp add: list_all2_map2 getitem_def list_all2_mono)
  have elems: "\<forall>u \<in> set ?ds. \<exists>word s. getitem raw word = Inr (JString s) \<and> u = upper s"
  proof
    fix u assume "u \<in> set ?ds"
    then obtain i where i: "i < length vals" and u: "u = upper (vals ! i)"
      by (auto simp: in_set_conv_nth)
    from rel i have "map_of raw (keys raw ! i) = Some (JString (vals ! i))"
      by (simp add: list_all2_conv_all_nth)
    then have "getitem raw (keys raw ! i) = Inr (JString (vals ! i))"
      by (simp add: getitem_def)
    with u show "\<exists>word s. getitem raw word = Inr (JString s) \<and> u = upper s"
      by blast
  qed
  have len: "length ?ds = length (keys raw)"
    using rel by (simp add: list_all2_lengthD)
  have "dom (map_of raw) = set (keys raw)"
    by (simp add: dom_map_of_conv_image_fst keys_def)
  then have "card (dom (map_of raw)) = length (keys raw)"
    using assms(1) by (simp add: distinct_card)
  with load pointwise elems len show ?thesis
    by simp
qed

theorem load_asl_dataset_flat_list_witness:
  "distinct (keys [(''hello'', JString ''Hello''), (''you'', JString ''you'')]) \<and>
   map snd [(''hello'', JString ''Hello''), (''you'', JString ''you'')] =
     map JString [''Hello'', ''you''] \<and>
   load_asl_dataset ascii_upper (Inr [(''hello'', JString ''Hello''), (''you'', JString ''you'')]) =
     Inr [''HELLO'', ''YOU'']"
proof -
  have d: "distinct (keys [(''hello'', JString ''Hello''), (''you'', JString ''you'')])"
    by (simp add: keys_def)
  have v: "map snd [(''hello'', JString ''Hello''), (''you'', JString ''you'')] =
      map JString [''Hello'', ''you'']"
    by simp
  from load_asl_dataset_flat_list [OF d v, of ascii_upper] d v show ?thesis
    by (auto simp: ascii_upper_Hello ascii_upper_you)
qed

text \<open>
  Claim C5. If the dataset file is missing at startup (\<^verbatim>\<open>open\<close> raises
  \<^verbatim>\<open>FileNotFoundError\<close>), startup fails: the module raises \<^verbatim>\<open>RuntimeError\<close> and no
  vocabulary, empty or default, is loaded.
\<close>

theorem load_asl_dataset_missing_file:
  "load_asl_dataset upper (Inl FileNotFoundError) =
     Inl (RuntimeError ''ASL dataset file not found at ./data/english_words.json'') \<and>
   (\<forall>asl_dataset. load_asl_dataset upper (Inl FileNotFoundError) \<noteq> Inr asl_dataset)"
  by (simp add: load_asl_dataset_def)

section \<open>Properties of POST /process-tokens\<close>

lemma decimal_400: "decimal 400 = ''400''"
  by code_simp

lemma decimal_500: "decimal 500 = ''500''"
  by code_simp

lemma openai_key_configured_example:
  "openai_key_configured [''OPENAI_API_KEY'' \<mapsto> ''sk-test'']"
  by (simp add: openai_key_configured_def getenv_def)

lemma process_tokens_success:
  assumes "openai_key_configured env" and "words request \<noteq> []"
    and "kickoff w (words request) ds = (Inr r, w')"
  shows "process_tokens str kickoff env ds request w = (Inr \<lparr>result = r\<rparr>, w')"
  using assms by (simp add: process_tokens_def process_tokens_try_def)

text \<open>
  Claim C1, on the code. A request whose \<open>words\<close> list is empty, with the credential
  configured, raises \<^verbatim>\<open>HTTPException(status_code=400)\<close> inside the \<^verbatim>\<open>try\<close> block; the
  handler \<^verbatim>\<open>except Exception\<close> of the same block catches it, and the endpoint fails with
  status 500, the 400 surviving only inside the detail text. The pipeline is not called.
\<close>

theorem process_tokens_empty_words:
  assumes "openai_key_configured env" and "words request = []"
  shows "process_tokens str kickoff env ds request w =
           (Inl (HTTPException 500
              (''Error processing tokens: '' @
               str (HTTPException 400 ''Words list cannot be empty''))), w)"
  using assms by (simp add: process_tokens_def process_tokens_try_def)

theorem process_tokens_empty_words_witness:
  "openai_key_configured [''OPENAI_API_KEY'' \<mapsto> ''sk-test''] \<and>
   words \<lparr>words = []\<rparr> = [] \<and>
   process_tokens exception_str (flaky_crew (OtherException ''boom''))
       [''OPENAI_API_KEY'' \<mapsto> ''sk-test''] [''HELLO'', ''YOU''] \<lparr>words = []\<rparr> 0 =
     (Inl (HTTPException 500
        ''Error processing tokens: 400: Words list cannot be empty''), 0)"
proof -
  have w: "words \<lparr>words = []\<rparr> = []"
    by simp
  from process_tokens_empty_words [OF openai_key_configured_example w,
      of exception_str "flaky_crew (OtherException ''boom'')" "[''HELLO'', ''YOU'']" 0]
  show ?thesis
    by (simp add: openai_key_configured_example decimal_400)
qed

text \<open>
  Claim C6. A request made while no API credential is configured fails with HTTP status
  500 and a message string (the first \<^verbatim>\<open>HTTPException\<close>, caught and wrapped by the
  handler); the pipeline is not called.
\<close>

theorem process_tokens_no_credential:
  assumes "\<not> openai_key_configured env"
  shows "process_tokens str kickoff env ds request w =
           (Inl (HTTPException 500
              (''Error processing tokens: '' @
               str (HTTPException 500
                 ''OPENAI_API_KEY not configured. Please set it in your environment or .env file.''))),
            w)"
  using assms by (simp add: process_tokens_def process_tokens_try_def)

theorem process_tokens_no_credential_witness:
  "\<not> openai_key_configured Map.empty \<and>
   process_tokens exception_str (flaky_crew (OtherException ''boom''))
       Map.empty [''HELLO'', ''YOU''] \<lparr>words = [''YOU'']\<rparr> 0 =
     (Inl (HTTPException 500
        ''Error processing tokens: 500: OPENAI_API_KEY not configured. Please set it in your environment or .env file.''),
      0)"
proof -
  have e: "\<not> openai_key_configured Map.empty"
    by (simp add: openai_key_configured_def getenv_def)
  from process_tokens_no_credential [OF e,
      of exception_str "flaky_crew (OtherException ''boom'')" "[''HELLO'', ''YOU'']"
        "\<lparr>words = [''YOU'']\<rparr>" 0]
  show ?thesis
    by (simp add: e decimal_500)
qed

text \<open>
  Claim C7, as stated, fails: \<^verbatim>\<open>except Exception\<close> does not catch an exception outside
  the class \<^verbatim>\<open>Exception\<close>. When the pipeline raises \<^verbatim>\<open>SystemExit("crew aborted")\<close>, that
  exception leaves the endpoint as it is, and no \<^verbatim>\<open>HTTPException\<close> is raised.
\<close>

theorem process_tokens_crew_exception_counterexample:
  "process_tokens exception_str (flaky_crew (NonException ''crew aborted''))
       [''OPENAI_API_KEY'' \<mapsto> ''sk-test''] [''HELLO'', ''YOU''] \<lparr>words = [''YOU'']\<rparr> 0 =
     (Inl (NonException ''crew aborted''), Suc 0)"
  by (simp add: process_tokens_def process_tokens_try_def flaky_crew_def
      openai_key_configured_example)

text \<open>
  Claim C7, amended. Every exception of class \<^verbatim>\<open>Exception\<close> that the external pipeline
  raises during POST /process-tokens is caught and surfaced as HTTP 500 whose detail is
  \<^verbatim>\<open>"Error processing tokens: "\<close> followed by \<^verbatim>\<open>str\<close> of the exception. Every exception
  outside the class \<^verbatim>\<open>Exception\<close> is not caught and leaves the endpoint unchanged. In
  both cases no retry is performed: the world after the request is the world after that
  one call.
\<close>

theorem process_tokens_crew_exception:
  assumes "openai_key_configured env" and "words request \<noteq> []"
    and "kickoff w (words request) ds = (Inl e, w')"
  shows "(isinstance_Exception e \<longrightarrow>
            process_tokens str kickoff env ds request w =
              (Inl (HTTPException 500 (''Error processing tokens: '' @ str e)), w')) \<and>
         (\<not> isinstance_Exception e \<longrightarrow>
            process_tokens str kickoff env ds request w = (Inl e, w'))"
  using assms by (simp add: process_tokens_def process_tokens_try_def)

theorem process_tokens_crew_exception_witness:
  "openai_key_configured [''OPENAI_API_KEY'' \<mapsto> ''sk-test''] \<and>
   words \<lparr>words = [''YOU'']\<rparr> \<noteq> [] \<and>
   flaky_crew (OtherException ''boom'') 0 (words \<lparr>words = [''YOU'']\<rparr>) [''HELLO'', ''YOU''] =
     (Inl (OtherException ''boom''), Suc 0) \<and>
   isinstance_Exception (OtherException ''boom'') \<and>
   flaky_crew (OtherException ''boom'') (Suc 0) (words \<lparr>words = [''YOU'']\<rparr>) [''HELLO'', ''YOU''] =
     (Inr ''Hello.'', Suc (Suc 0)) \<and>
   process_tokens exception_str (flaky_crew (OtherException ''boom''))
       [''OPENAI_API_KEY'' \<mapsto> ''sk-test''] [''HELLO'', ''YOU''] \<lparr>words = [''YOU'']\<rparr> 0 =
     (Inl (HTTPException 500 ''Error processing tokens: boom''), Suc 0) \<and>
   flaky_crew (NonException ''interrupted'') 0 (words \<lparr>words = [''YOU'']\<rparr>) [''HELLO'', ''YOU''] =
     (Inl (NonException ''interrupted''), Suc 0) \<and>
   \<not> isinstance_Exception (NonException ''interrupted'') \<and>
   process_tokens exception_str (flaky_crew (NonException ''interrupted''))
       [''OPENAI_API_KEY'' \<mapsto> ''sk-test''] [''HELLO'', ''YOU''] \<lparr>words = [''YOU'']\<rparr> 0 =
     (Inl (NonException ''interrupted''), Suc 0)"
proof -
  have w: "words \<lparr>words = [''YOU'']\<rparr> \<noteq> []"
    by simp
  have k: "flaky_crew (OtherException ''boom'') 0 (words \<lparr>words = [''YOU'']\<rparr>) [''HELLO'', ''YOU''] =
      (Inl (OtherException ''boom''), Suc 0)"
    by (simp add: flaky_crew_def)
  have k': "flaky_crew (NonException ''interrupted'') 0 (words \<lparr>words = [''YOU'']\<rparr>)
      [''HELLO'', ''YOU''] = (Inl (NonException ''interrupted''), Suc 0)"
    by (simp add: flaky_crew_def)
  have caught: "process_tokens exception_str (flaky_crew (OtherException ''boom''))
       [''OPENAI_API_KEY'' \<mapsto> ''sk-test''] [''HELLO'', ''YOU''] \<lparr>words = [''YOU'']\<rparr> 0 =
     (Inl (HTTPException 500 ''Error processing tokens: boom''), Suc 0)"
    using process_tokens_crew_exception
      [where kickoff = "flaky_crew (OtherException ''boom'')" and w = 0 and str = exception_str,
        OF openai_key_configured_example w k]
    by simp
  have uncaught: "process_tokens exception_str (flaky_crew (NonException ''interrupted''))
       [''OPENAI_API_KEY'' \<mapsto> ''sk-test''] [''HELLO'', ''YOU''] \<lparr>words = [''YOU'']\<rparr> 0 =
     (Inl (NonException ''interrupted''), Suc 0)"
    using process_tokens_crew_exception
      [where kickoff = "flaky_crew (NonException ''interrupted'')" and w = 0 and str = exception_str,
        OF openai_key_configured_example w k']
    by simp
  from caught uncaught show ?thesis
    by (simp add: openai_key_configured_example flaky_crew_def)
qed

end
